theory Spec2Isabelle
  imports Main "HOL-Library.Log_Nat"
begin

section \<open>Python values\<close>

text \<open>
  The scraper works on what \<^verbatim>\<open>requests\<close>' \<^verbatim>\<open>r.json()\<close> and
  \<^verbatim>\<open>csv.DictReader\<close> hand it: \<^verbatim>\<open>None\<close>, booleans, unbounded integers, floats,
  strings, lists and dictionaries with string keys.

  A string is a list of characters with code points below 256. A dictionary is the list of
  its items; a look-up takes the first item with the key (a Python dictionary holds every
  key once). A finite float is the double \<open>m * 2 ^ e\<close>, carried together with the text
  that \<^verbatim>\<open>repr\<close> prints for it, which is not recomputed here.
\<close>

datatype pyfloat = Finite int int string | NaN | PosInf | NegInf

datatype pyval =
    PNone
  | PBool bool
  | PInt int
  | PFloat pyfloat
  | PStr string
  | PList "pyval list"
  | PDict "(string \<times> pyval) list"

datatype pyerr =
    AttributeError | TypeError | IndexError | KeyError | ValueError | OverflowError

subsection \<open>Truth value, attribute and item access, iteration\<close>

fun float_is_zero :: "pyfloat \<Rightarrow> bool" where
  "float_is_zero (Finite m e r) = (m = 0)"
| "float_is_zero NaN = False"
| "float_is_zero PosInf = False"
| "float_is_zero NegInf = False"

text \<open>\<^verbatim>\<open>bool(x)\<close>, as \<^verbatim>\<open>if not response\<close> and \<^verbatim>\<open>resp and ...\<close> take it.\<close>

fun truthy :: "pyval \<Rightarrow> bool" where
  "truthy PNone = False"
| "truthy (PBool b) = b"
| "truthy (PInt i) = (i \<noteq> 0)"
| "truthy (PFloat f) = (\<not> float_is_zero f)"
| "truthy (PStr s) = (s \<noteq> [])"
| "truthy (PList xs) = (xs \<noteq> [])"
| "truthy (PDict d) = (d \<noteq> [])"

text \<open>\<^verbatim>\<open>x.get(k, dflt)\<close>: only a dictionary has the method.\<close>

fun py_get :: "pyval \<Rightarrow> string \<Rightarrow> pyval \<Rightarrow> pyerr + pyval" where
  "py_get (PDict d) k dflt = Inr (case map_of d k of None \<Rightarrow> dflt | Some v \<Rightarrow> v)"
| "py_get x k dflt = Inl AttributeError"

text \<open>\<^verbatim>\<open>x[k]\<close> for a string key \<open>k\<close>, as \<^verbatim>\<open>row["UID"]\<close> and \<^verbatim>\<open>stats["Attack"]\<close>.\<close>

fun py_getitem :: "pyval \<Rightarrow> string \<Rightarrow> pyerr + pyval" where
  "py_getitem (PDict d) k = (case map_of d k of None \<Rightarrow> Inl KeyError | Some v \<Rightarrow> Inr v)"
| "py_getitem x k = Inl TypeError"

text \<open>
  \<^verbatim>\<open>x[0]\<close>: the first element of a list, the first character of a string; a dictionary
  parsed from JSON has string keys only, so the key \<open>0\<close> is never in it.
\<close>

fun py_getitem0 :: "pyval \<Rightarrow> pyerr + pyval" where
  "py_getitem0 (PList []) = Inl IndexError"
| "py_getitem0 (PList (x # xs)) = Inr x"
| "py_getitem0 (PStr []) = Inl IndexError"
| "py_getitem0 (PStr (c # cs)) = Inr (PStr [c])"
| "py_getitem0 (PDict d) = Inl KeyError"
| "py_getitem0 x = Inl TypeError"

text \<open>The elements a \<^verbatim>\<open>for\<close> loop runs over.\<close>

fun py_iter :: "pyval \<Rightarrow> pyerr + pyval list" where
  "py_iter (PList xs) = Inr xs"
| "py_iter (PDict d) = Inr (map (\<lambda>kv. PStr (fst kv)) d)"
| "py_iter (PStr s) = Inr (map (\<lambda>c. PStr [c]) s)"
| "py_iter x = Inl TypeError"

text \<open>Lists and dictionaries cannot be dictionary keys.\<close>

fun hashable :: "pyval \<Rightarrow> bool" where
  "hashable (PList xs) = False"
| "hashable (PDict d) = False"
| "hashable x = True"

text \<open>\<^verbatim>\<open>x == 0\<close>: the integer zero, \<^verbatim>\<open>False\<close> and both float zeros.\<close>

fun py_eq_zero :: "pyval \<Rightarrow> bool" where
  "py_eq_zero (PInt i) = (i = 0)"
| "py_eq_zero (PBool b) = (\<not> b)"
| "py_eq_zero (PFloat f) = float_is_zero f"
| "py_eq_zero x = False"

subsection \<open>Strings: \<^verbatim>\<open>strip\<close>, \<^verbatim>\<open>split\<close>, \<^verbatim>\<open>str\<close>, \<^verbatim>\<open>repr\<close>\<close>

text \<open>\<^verbatim>\<open>str.isspace\<close> on the code points below 256.\<close>

definition py_isspace :: "char \<Rightarrow> bool" where
  "py_isspace c =
     (let n = (of_char c :: nat)
      in (9 \<le> n \<and> n \<le> 13) \<or> (28 \<le> n \<and> n \<le> 32) \<or> n = 133 \<or> n = 160)"

definition strip :: "string \<Rightarrow> string" where
  "strip s = rev (dropWhile py_isspace (rev (dropWhile py_isspace s)))"

text \<open>\<^verbatim>\<open>x.strip()\<close> on a value: only a string has the method.\<close>

fun py_strip :: "pyval \<Rightarrow> pyerr + string" where
  "py_strip (PStr s) = Inr (strip s)"
| "py_strip x = Inl AttributeError"

text \<open>\<^verbatim>\<open>s.split("-")[-1]\<close>: what follows the last separator, the whole string without one.\<close>

definition split_last :: "char \<Rightarrow> string \<Rightarrow> string" where
  "split_last sep s = rev (takeWhile (\<lambda>c. c \<noteq> sep) (rev s))"

definition digit_char :: "nat \<Rightarrow> char" where
  "digit_char n = ''0123456789'' ! n"

text \<open>The decimal digits of an integer that is not negative.\<close>

function str_nat :: "int \<Rightarrow> string" where
  "str_nat n =
     (if n < 10 then [digit_char (nat n)]
      else str_nat (n div 10) @ [digit_char (nat (n mod 10))])"
  by pat_completeness auto
termination
  by (relation "measure nat") auto

declare str_nat.simps [simp del]

definition str_int :: "int \<Rightarrow> string" where
  "str_int i = (if i < 0 then CHR ''-'' # str_nat (- i) else str_nat i)"

fun joinsep :: "string \<Rightarrow> string list \<Rightarrow> string" where
  "joinsep sep [] = []"
| "joinsep sep [x] = x"
| "joinsep sep (x # y # ys) = x @ sep @ joinsep sep (y # ys)"

definition hex2 :: "nat \<Rightarrow> string" where
  "hex2 n = [''0123456789abcdef'' ! (n div 16), ''0123456789abcdef'' ! (n mod 16)]"

text \<open>
  One character inside \<^verbatim>\<open>repr\<close> of a string quoted with \<open>q\<close>: the quote and the
  backslash are escaped, tab, newline and return have their letters, and every other
  unprintable code point is written \<^verbatim>\<open>\xhh\<close>.
\<close>

definition repr_char :: "char \<Rightarrow> char \<Rightarrow> string" where
  "repr_char q c =
     (let n = (of_char c :: nat) in
      if c = q \<or> c = CHR 0x5C then [CHR 0x5C, c]
      else if n = 9 then [CHR 0x5C, CHR ''t'']
      else if n = 10 then [CHR 0x5C, CHR ''n'']
      else if n = 13 then [CHR 0x5C, CHR ''r'']
      else if n < 32 \<or> (127 \<le> n \<and> n \<le> 160) \<or> n = 173 then [CHR 0x5C, CHR ''x''] @ hex2 n
      else [c])"

definition repr_str :: "string \<Rightarrow> string" where
  "repr_str s =
     (let q = (if CHR 0x27 \<in> set s \<and> CHR 0x22 \<notin> set s then CHR 0x22 else CHR 0x27)
      in [q] @ concat (map (repr_char q) s) @ [q])"

fun float_repr :: "pyfloat \<Rightarrow> string" where
  "float_repr (Finite m e r) = r"
| "float_repr NaN = ''nan''"
| "float_repr PosInf = ''inf''"
| "float_repr NegInf = ''-inf''"

fun py_repr :: "pyval \<Rightarrow> string" where
  "py_repr PNone = ''None''"
| "py_repr (PBool b) = (if b then ''True'' else ''False'')"
| "py_repr (PInt i) = str_int i"
| "py_repr (PFloat f) = float_repr f"
| "py_repr (PStr s) = repr_str s"
| "py_repr (PList xs) = ''['' @ joinsep '', '' (map py_repr xs) @ '']''"
| "py_repr (PDict d) =
     ''{'' @ joinsep '', '' (map (\<lambda>kv. repr_str (fst kv) @ '': '' @ py_repr (snd kv)) d) @ ''}''"

text \<open>\<^verbatim>\<open>str(x)\<close>: a string is itself, everything else prints as \<^verbatim>\<open>repr\<close>.\<close>

fun py_str :: "pyval \<Rightarrow> string" where
  "py_str (PStr s) = s"
| "py_str x = py_repr x"

subsection \<open>\<^verbatim>\<open>int(x)\<close>\<close>

text \<open>
  \<^verbatim>\<open>int\<close> of a string skips the white space around it (for \<^verbatim>\<open>int\<close> the code points
  9 to 13, 32, 133 and 160), takes one optional sign and then decimal digits, where single
  underscores may stand between two digits. The interpreter's configurable limit on the
  number of digits (\<^verbatim>\<open>sys.set_int_max_str_digits\<close>) is not modelled.
\<close>

definition int_space :: "char \<Rightarrow> bool" where
  "int_space c =
     (let n = (of_char c :: nat) in (9 \<le> n \<and> n \<le> 13) \<or> n = 32 \<or> n = 133 \<or> n = 160)"

definition is_digit :: "char \<Rightarrow> bool" where
  "is_digit c = (48 \<le> (of_char c :: nat) \<and> (of_char c :: nat) \<le> 57)"

definition digit_val :: "char \<Rightarrow> int" where
  "digit_val c = of_char c - 48"

fun digits_val :: "int \<Rightarrow> bool \<Rightarrow> string \<Rightarrow> int option" where
  "digits_val acc prev [] = (if prev then Some acc else None)"
| "digits_val acc prev (c # cs) =
     (if is_digit c then digits_val (10 * acc + digit_val c) True cs
      else if c = CHR ''_'' \<and> prev then digits_val acc False cs
      else None)"

definition int_of_str :: "string \<Rightarrow> pyerr + int" where
  "int_of_str s =
     (let t = rev (dropWhile int_space (rev (dropWhile int_space s)))
      in case t of
           [] \<Rightarrow> Inl ValueError
         | c # cs \<Rightarrow>
             if c = CHR ''-'' then
               (case digits_val 0 False cs of None \<Rightarrow> Inl ValueError | Some n \<Rightarrow> Inr (- n))
             else if c = CHR ''+'' then
               (case digits_val 0 False cs of None \<Rightarrow> Inl ValueError | Some n \<Rightarrow> Inr n)
             else
               (case digits_val 0 False t of None \<Rightarrow> Inl ValueError | Some n \<Rightarrow> Inr n))"

text \<open>\<^verbatim>\<open>int\<close> of a float cuts the fraction off, towards zero.\<close>

fun float_trunc :: "pyfloat \<Rightarrow> pyerr + int" where
  "float_trunc (Finite m e r) =
     Inr (if 0 \<le> e then m * 2 ^ nat e else sgn m * (\<bar>m\<bar> div 2 ^ nat (- e)))"
| "float_trunc NaN = Inl ValueError"
| "float_trunc PosInf = Inl OverflowError"
| "float_trunc NegInf = Inl OverflowError"

fun py_int :: "pyval \<Rightarrow> pyerr + int" where
  "py_int PNone = Inl TypeError"
| "py_int (PBool b) = Inr (if b then 1 else 0)"
| "py_int (PInt i) = Inr i"
| "py_int (PFloat f) = float_trunc f"
| "py_int (PStr s) = int_of_str s"
| "py_int (PList xs) = Inl TypeError"
| "py_int (PDict d) = Inl TypeError"

subsection \<open>\<^verbatim>\<open>n / 100\<close> and the format \<^verbatim>\<open>.2f\<close>\<close>

text \<open>The integer nearest to \<open>a / b\<close> for \<open>b > 0\<close>, a tie going to the even one.\<close>

definition round_half_even :: "int \<Rightarrow> int \<Rightarrow> int" where
  "round_half_even a b =
     (let q = a div b; r = a mod b
      in if 2 * r < b then q
         else if b < 2 * r then q + 1
         else if even q then q else q + 1)"

text \<open>The \<open>k\<close> with \<open>2 ^ k \<le> n / b < 2 ^ (k + 1)\<close>, for positive \<open>n\<close> and \<open>b\<close>.\<close>

definition quot_log2 :: "int \<Rightarrow> int \<Rightarrow> int" where
  "quot_log2 n b =
     (let d = bitlen n - bitlen b
      in if (if 0 \<le> d then b * 2 ^ nat d \<le> n else b \<le> n * 2 ^ nat (- d)) then d else d - 1)"

text \<open>
  True division of two integers gives the double nearest to the exact quotient (ties to
  even): a mantissa \<open>m\<close> of 53 bits and an exponent \<open>e\<close>, for the value \<open>m * 2 ^ e\<close>, and
  \<^verbatim>\<open>OverflowError\<close> beyond the largest double \<open>(2 ^ 53 - 1) * 2 ^ 971\<close>. The divisor is
  positive, and the quotient is zero or at least \<open>2 ^ - 1022\<close> in size (no subnormal
  result), as \<open>n / 100\<close> always is.
\<close>

definition int_truediv :: "int \<Rightarrow> int \<Rightarrow> pyerr + (int \<times> int)" where
  "int_truediv a b =
     (if a = 0 then Inr (0, 0)
      else
        let n = \<bar>a\<bar>;
            e = quot_log2 n b - 52;
            m = (if 0 \<le> e then round_half_even n (b * 2 ^ nat e)
                 else round_half_even (n * 2 ^ nat (- e)) b);
            m' = (if m = 2 ^ 53 then 2 ^ 52 else m);
            e' = (if m = 2 ^ 53 then e + 1 else e)
        in if 971 < e' then Inl OverflowError else Inr (sgn a * m', e'))"

text \<open>Two digits after the point.\<close>

definition two_digits :: "int \<Rightarrow> string" where
  "two_digits n = [digit_char (nat (n div 10)), digit_char (nat (n mod 10))]"

text \<open>
  \<^verbatim>\<open>f"{x:.2f}"\<close> of the double \<open>x = m * 2 ^ e\<close>: the exact value of \<open>x\<close> rounded to
  hundredths (ties to even), printed with the sign of \<open>x\<close>.
\<close>

definition format_2f :: "int \<times> int \<Rightarrow> string" where
  "format_2f x =
     (let m = fst x; e = snd x;
          k = (if 0 \<le> e then \<bar>m\<bar> * 100 * 2 ^ nat e
               else round_half_even (\<bar>m\<bar> * 100) (2 ^ nat (- e)))
      in (if m < 0 then ''-'' else []) @ str_nat (k div 100) @ ''.'' @ two_digits (k mod 100))"

text \<open>\<^verbatim>\<open>f"{n / 100:.2f}"\<close> for an integer \<open>n\<close>.\<close>

definition scale_fmt :: "int \<Rightarrow> pyerr + string" where
  "scale_fmt n = (case int_truediv n 100 of Inl err \<Rightarrow> Inl err | Inr x \<Rightarrow> Inr (format_2f x))"

section \<open>The stat extractor\<close>

text \<open>
  A dictionary finds a key by \<^verbatim>\<open>==\<close>: \<^verbatim>\<open>True\<close>, \<^verbatim>\<open>1\<close> and \<^verbatim>\<open>1.0\<close> are one
  key, as are \<^verbatim>\<open>False\<close>, \<^verbatim>\<open>0\<close> and both float zeros, and a float is the key of the
  integer of the same value. \<open>dict_key\<close> gives the representative a key is stored
  under: the integer for a boolean and for a float of integral value, the mantissa made odd
  for any other finite float (its text plays no part). A string, \<^verbatim>\<open>None\<close> and an
  infinity are equal to themselves only. The decoder hands out one and the same object for
  every \<^verbatim>\<open>NaN\<close>, which a dictionary finds again by identity, so \<^verbatim>\<open>NaN\<close> is one
  key as well.
\<close>

function float_normal :: "int \<Rightarrow> int \<Rightarrow> int \<times> int" where
  "float_normal m e =
     (if m = 0 then (0, 0)
      else if even m then float_normal (m div 2) (e + 1)
      else (m, e))"
  by pat_completeness auto
termination
  by (relation "measure (\<lambda>(m, e). nat \<bar>m\<bar>)") auto

declare float_normal.simps [simp del]

fun dict_key :: "pyval \<Rightarrow> pyval" where
  "dict_key (PBool b) = PInt (if b then 1 else 0)"
| "dict_key (PFloat (Finite m e r)) =
     (let n = float_normal m e
      in if 0 \<le> snd n then PInt (fst n * 2 ^ nat (snd n)) else PFloat (Finite (fst n) (snd n) []))"
| "dict_key x = x"

text \<open>
  \<^verbatim>\<open>effect_map\<close> maps an effect id to the pair \<^verbatim>\<open>(ftype, val)\<close>: as a function of the
  representative of the key. The look-ups of step 3 are by strings, which are their own
  representatives.
\<close>

type_synonym effect_map = "pyval \<rightharpoonup> (pyval \<times> int)"

text \<open>The running totals \<^verbatim>\<open>results\<close>.\<close>

record results =
  Attack :: int
  ElementalDamage :: int
  MaxAmmo :: int

definition gear_keys :: "string list" where
  "gear_keys =
     [''arm_equip_option1_id'', ''arm_equip_option2_id'', ''arm_equip_option3_id'',
      ''leg_equip_option1_id'', ''leg_equip_option2_id'', ''leg_equip_option3_id'',
      ''head_equip_option1_id'', ''head_equip_option2_id'', ''head_equip_option3_id'',
      ''torso_equip_option1_id'', ''torso_equip_option2_id'', ''torso_equip_option3_id'']"

text \<open>
  \<^verbatim>\<open>try: val = int(func.get("function_value", 0))  except Exception: val = 0\<close>
\<close>

definition function_value :: "pyval \<Rightarrow> int" where
  "function_value func =
     (case py_get func ''function_value'' (PInt 0) of
        Inl err \<Rightarrow> 0
      | Inr v \<Rightarrow> (case py_int v of Inl err \<Rightarrow> 0 | Inr i \<Rightarrow> i))"

text \<open>The inner loop of step 1, over the function details of one effect.\<close>

fun scan_functions :: "pyval \<Rightarrow> effect_map \<Rightarrow> pyval list \<Rightarrow> pyerr + effect_map" where
  "scan_functions eid m [] = Inr m"
| "scan_functions eid m (func # funcs) =
     (case py_get func ''function_type'' PNone of
        Inl err \<Rightarrow> Inl err
      | Inr ftype \<Rightarrow>
          if hashable eid
          then scan_functions eid (m(dict_key eid \<mapsto> (ftype, function_value func))) funcs
          else Inl TypeError)"

text \<open>The outer loop of step 1, over the state effects.\<close>

fun scan_effects :: "effect_map \<Rightarrow> pyval list \<Rightarrow> pyerr + effect_map" where
  "scan_effects m [] = Inr m"
| "scan_effects m (effect # effects) =
     (case py_get effect ''id'' PNone of
        Inl err \<Rightarrow> Inl err
      | Inr eid \<Rightarrow>
          (case py_get effect ''function_details'' (PList []) of
             Inl err \<Rightarrow> Inl err
           | Inr details \<Rightarrow>
               (case py_iter details of
                  Inl err \<Rightarrow> Inl err
                | Inr funcs \<Rightarrow>
                    (case scan_functions eid m funcs of
                       Inl err \<Rightarrow> Inl err
                     | Inr m' \<Rightarrow> scan_effects m' effects))))"

text \<open>One round of the loop of step 3, once the slot's value has been read.\<close>

definition add_slot :: "effect_map \<Rightarrow> pyval \<Rightarrow> results \<Rightarrow> results" where
  "add_slot m v r =
     (case m (PStr (py_str v)) of
        None \<Rightarrow> r
      | Some (ftype, val) \<Rightarrow>
          if ftype = PStr ''StatAtk'' then r\<lparr>Attack := Attack r + val\<rparr>
          else if ftype = PStr ''IncElementDmg'' then r\<lparr>ElementalDamage := ElementalDamage r + val\<rparr>
          else if ftype = PStr ''StatAmmoLoad'' then r\<lparr>MaxAmmo := MaxAmmo r + val\<rparr>
          else r)"

fun sum_slots :: "effect_map \<Rightarrow> pyval \<Rightarrow> results \<Rightarrow> string list \<Rightarrow> pyerr + results" where
  "sum_slots m character r [] = Inr r"
| "sum_slots m character r (key # keys) =
     (case py_get character key PNone of
        Inl err \<Rightarrow> Inl err
      | Inr v \<Rightarrow> sum_slots m character (add_slot m v r) keys)"

text \<open>Step 4: the dictionary returned on the normal path.\<close>

definition format_results :: "results \<Rightarrow> pyerr + pyval" where
  "format_results r =
     (case scale_fmt (Attack r) of
        Inl err \<Rightarrow> Inl err
      | Inr a \<Rightarrow>
          (case scale_fmt (ElementalDamage r) of
             Inl err \<Rightarrow> Inl err
           | Inr e \<Rightarrow>
               (case scale_fmt (MaxAmmo r) of
                  Inl err \<Rightarrow> Inl err
                | Inr x \<Rightarrow>
                    Inr (PDict [(''Attack'', PStr a), (''ElementalDamage'', PStr e),
                                (''MaxAmmo'', PStr x)]))))"

text \<open>The dictionary \<^verbatim>\<open>results\<close> itself, as the early return hands it out.\<close>

definition results_dict :: "results \<Rightarrow> pyval" where
  "results_dict r =
     PDict [(''Attack'', PInt (Attack r)), (''ElementalDamage'', PInt (ElementalDamage r)),
            (''MaxAmmo'', PInt (MaxAmmo r))]"

definition zero_results :: results where
  "zero_results = \<lparr>Attack = 0, ElementalDamage = 0, MaxAmmo = 0\<rparr>"

text \<open>Step 1: the table from effect ids to \<^verbatim>\<open>(ftype, val)\<close>.\<close>

definition build_effect_map :: "pyval \<Rightarrow> pyerr + effect_map" where
  "build_effect_map response =
     (case py_get response ''data'' (PDict []) of
        Inl err \<Rightarrow> Inl err
      | Inr data \<Rightarrow>
          (case py_get data ''state_effects'' (PList []) of
             Inl err \<Rightarrow> Inl err
           | Inr state_effects \<Rightarrow>
               (case py_iter state_effects of
                  Inl err \<Rightarrow> Inl err
                | Inr effects \<Rightarrow> scan_effects Map.empty effects)))"

text \<open>
  Step 2: \<^verbatim>\<open>response.get("data", {}).get("character_details", [{}])[0]\<close>.
\<close>

definition first_character :: "pyval \<Rightarrow> pyerr + pyval" where
  "first_character response =
     (case py_get response ''data'' (PDict []) of
        Inl err \<Rightarrow> Inl err
      | Inr data \<Rightarrow>
          (case py_get data ''character_details'' (PList [PDict []]) of
             Inl err \<Rightarrow> Inl err
           | Inr details \<Rightarrow> py_getitem0 details))"

text \<open>Steps 1 to 3: the totals before they are scaled.\<close>

definition gear_totals :: "pyval \<Rightarrow> pyerr + results" where
  "gear_totals response =
     (case build_effect_map response of
        Inl err \<Rightarrow> Inl err
      | Inr effect_map \<Rightarrow>
          (case first_character response of
             Inl err \<Rightarrow> Inl err
           | Inr character \<Rightarrow> sum_slots effect_map character zero_results gear_keys))"

definition extract_stats_per_gear :: "pyval \<Rightarrow> pyerr + pyval" where
  "extract_stats_per_gear response =
     (if \<not> truthy response then Inr (results_dict zero_results)
      else
        (case gear_totals response of
           Inl err \<Rightarrow> Inl err
         | Inr r \<Rightarrow> format_results r))"

section \<open>The loaders\<close>

text \<open>
  Both loaders run over the rows \<^verbatim>\<open>csv.DictReader\<close> yields: dictionaries from the
  column names of the header to the fields of the row, where a row shorter than the header
  has \<^verbatim>\<open>None\<close> for each field it lacks. Opening and parsing the file is left to the
  \<^verbatim>\<open>csv\<close> module.
\<close>

text \<open>\<^verbatim>\<open>d[k] = v\<close> on a dictionary kept as the list of its items, in insertion order.\<close>

fun dict_set :: "'k \<Rightarrow> 'v \<Rightarrow> ('k \<times> 'v) list \<Rightarrow> ('k \<times> 'v) list" where
  "dict_set k v [] = [(k, v)]"
| "dict_set k v (kv # kvs) = (if fst kv = k then (k, v) # kvs else kv # dict_set k v kvs)"

text \<open>
  One row of the unit catalog: any exception raised while the row is read leaves
  \<^verbatim>\<open>mapping\<close> as it was.
\<close>

definition units_row :: "(int \<times> string) list \<Rightarrow> pyval \<Rightarrow> (int \<times> string) list" where
  "units_row mapping row =
     (case py_getitem row ''units/Name code'' of
        Inl err \<Rightarrow> mapping
      | Inr c \<Rightarrow>
          (case py_int c of
             Inl err \<Rightarrow> mapping
           | Inr code \<Rightarrow>
               (case py_getitem row ''units/Name'' of
                  Inl err \<Rightarrow> mapping
                | Inr n \<Rightarrow>
                    (case py_strip n of
                       Inl err \<Rightarrow> mapping
                     | Inr name \<Rightarrow> dict_set code name mapping))))"

definition load_units_csv :: "pyval list \<Rightarrow> (int \<times> string) list" where
  "load_units_csv rows = foldl units_row [] rows"

record player =
  Player :: string
  intl_open_id :: string

text \<open>One row of the player registry: nothing is caught here.\<close>

definition players_row :: "pyval \<Rightarrow> pyerr + player" where
  "players_row row =
     (case py_getitem row ''UID'' of
        Inl err \<Rightarrow> Inl err
      | Inr u \<Rightarrow>
          (case py_strip u of
             Inl err \<Rightarrow> Inl err
           | Inr uid \<Rightarrow>
               (case py_getitem row ''Player'' of
                  Inl err \<Rightarrow> Inl err
                | Inr p \<Rightarrow>
                    (case py_strip p of
                       Inl err \<Rightarrow> Inl err
                     | Inr name \<Rightarrow>
                         Inr \<lparr>Player = name, intl_open_id = split_last CHR ''-'' uid\<rparr>))))"

fun load_players_from :: "player list \<Rightarrow> pyval list \<Rightarrow> pyerr + player list" where
  "load_players_from players [] = Inr players"
| "load_players_from players (row # rows) =
     (case players_row row of
        Inl err \<Rightarrow> Inl err
      | Inr p \<Rightarrow> load_players_from (players @ [p]) rows)"

definition load_players_csv :: "pyval list \<Rightarrow> pyerr + player list" where
  "load_players_csv rows = load_players_from [] rows"

section \<open>The fetcher and the driver\<close>

text \<open>
  What one POST comes to: the parsed JSON body, or one of the exceptions of
  \<^verbatim>\<open>requests\<close> (connection failure, timeout, error status, unparsable body).
\<close>

datatype transport = Json pyval | RequestException

text \<open>
  The network is a parameter: \<open>post intl_open_id name_code cookie\<close> is the outcome of
  the request.
\<close>

definition call_character_details ::
  "(string \<Rightarrow> int \<Rightarrow> string \<Rightarrow> transport) \<Rightarrow> string \<Rightarrow> int \<Rightarrow> string \<Rightarrow> pyval" where
  "call_character_details post open_id name_code cookie =
     (case post open_id name_code cookie of Json v \<Rightarrow> v | RequestException \<Rightarrow> PNone)"

definition out_row :: "string \<Rightarrow> string \<Rightarrow> pyval \<Rightarrow> pyval \<Rightarrow> pyval \<Rightarrow> pyval" where
  "out_row player_name unit_name a e x =
     PDict [(''Player'', PStr player_name), (''Unit'', PStr unit_name),
            (''Attack'', a), (''ElementalDamage'', e), (''MaxAmmo'', x)]"

text \<open>\<^verbatim>\<open>resp and resp.get("code") == 0\<close>\<close>

definition resp_ok :: "pyval \<Rightarrow> pyerr + bool" where
  "resp_ok resp =
     (if truthy resp
      then (case py_get resp ''code'' PNone of Inl err \<Rightarrow> Inl err | Inr c \<Rightarrow> Inr (py_eq_zero c))
      else Inr False)"

text \<open>
  The row the driver appends for one pair, given the response. The extractor is a
  parameter, \<open>extract_stats_per_gear\<close> in \<open>main\<close>.
\<close>

definition pair_row ::
  "(pyval \<Rightarrow> pyerr + pyval) \<Rightarrow> string \<Rightarrow> string \<Rightarrow> pyval \<Rightarrow> pyerr + pyval" where
  "pair_row extract player_name unit_name resp =
     (case resp_ok resp of
        Inl err \<Rightarrow> Inl err
      | Inr ok \<Rightarrow>
          if ok then
            (case extract resp of
               Inl err \<Rightarrow> Inl err
             | Inr stats \<Rightarrow>
                 (case py_getitem stats ''Attack'' of
                    Inl err \<Rightarrow> Inl err
                  | Inr a \<Rightarrow>
                      (case py_getitem stats ''ElementalDamage'' of
                         Inl err \<Rightarrow> Inl err
                       | Inr e \<Rightarrow>
                           (case py_getitem stats ''MaxAmmo'' of
                              Inl err \<Rightarrow> Inl err
                            | Inr x \<Rightarrow> Inr (out_row player_name unit_name a e x)))))
          else Inr (out_row player_name unit_name PNone PNone PNone))"

text \<open>
  The inner loop, over the units. \<open>step\<close> counts the requests made so far; \<open>post step\<close>
  is the network at the request with that number.
\<close>

fun run_units ::
  "(pyval \<Rightarrow> pyerr + pyval) \<Rightarrow> (nat \<Rightarrow> string \<Rightarrow> int \<Rightarrow> string \<Rightarrow> transport) \<Rightarrow> string \<Rightarrow>
   player \<Rightarrow> nat \<Rightarrow> pyval list \<Rightarrow> (int \<times> string) list \<Rightarrow> pyerr + (nat \<times> pyval list)" where
  "run_units extract post cookie p step out_rows [] = Inr (step, out_rows)"
| "run_units extract post cookie p step out_rows (u # units) =
     (case pair_row extract (Player p) (snd u)
             (call_character_details (post (Suc step)) (intl_open_id p) (fst u) cookie) of
        Inl err \<Rightarrow> Inl err
      | Inr row \<Rightarrow> run_units extract post cookie p (Suc step) (out_rows @ [row]) units)"

text \<open>The outer loop, over the players.\<close>

fun run_players ::
  "(pyval \<Rightarrow> pyerr + pyval) \<Rightarrow> (nat \<Rightarrow> string \<Rightarrow> int \<Rightarrow> string \<Rightarrow> transport) \<Rightarrow> string \<Rightarrow>
   (int \<times> string) list \<Rightarrow> nat \<Rightarrow> pyval list \<Rightarrow> player list \<Rightarrow> pyerr + pyval list" where
  "run_players extract post cookie units step out_rows [] = Inr out_rows"
| "run_players extract post cookie units step out_rows (p # players) =
     (case run_units extract post cookie p step out_rows units of
        Inl err \<Rightarrow> Inl err
      | Inr (step', out_rows') \<Rightarrow> run_players extract post cookie units step' out_rows' players)"

text \<open>
  \<open>main\<close>, from the rows of the two input files, the cookie typed in and the network, to
  the rows handed to the CSV writer.
\<close>

definition main_with ::
  "(pyval \<Rightarrow> pyerr + pyval) \<Rightarrow> pyval list \<Rightarrow> pyval list \<Rightarrow> string \<Rightarrow>
   (nat \<Rightarrow> string \<Rightarrow> int \<Rightarrow> string \<Rightarrow> transport) \<Rightarrow> pyerr + pyval list" where
  "main_with extract unit_rows player_rows cookie_input post =
     (let units_map = load_units_csv unit_rows
      in case load_players_csv player_rows of
           Inl err \<Rightarrow> Inl err
         | Inr players \<Rightarrow>
             run_players extract post (strip cookie_input) (sort_key fst units_map) 0 [] players)"

definition main ::
  "pyval list \<Rightarrow> pyval list \<Rightarrow> string \<Rightarrow> (nat \<Rightarrow> string \<Rightarrow> int \<Rightarrow> string \<Rightarrow> transport) \<Rightarrow>
   pyerr + pyval list" where
  "main = main_with extract_stats_per_gear"

section \<open>Vocabulary of the properties\<close>

text \<open>\<^verbatim>\<open>d.get(k)\<close> on the items of a dictionary.\<close>

definition dict_get :: "(string \<times> pyval) list \<Rightarrow> string \<Rightarrow> pyval" where
  "dict_get d k = (case map_of d k of None \<Rightarrow> PNone | Some v \<Rightarrow> v)"

text \<open>What one slot holding the value \<open>v\<close> adds to fresh totals.\<close>

definition slot_gain :: "effect_map \<Rightarrow> pyval \<Rightarrow> results" where
  "slot_gain m v = add_slot m v zero_results"

text \<open>The total that effects of the type \<open>ftype\<close> are added to.\<close>

definition stat_of :: "string \<Rightarrow> results \<Rightarrow> int" where
  "stat_of ftype r =
     (if ftype = ''StatAtk'' then Attack r
      else if ftype = ''IncElementDmg'' then ElementalDamage r
      else if ftype = ''StatAmmoLoad'' then MaxAmmo r
      else 0)"

text \<open>
  The decimal numeral of \<open>n / 100\<close> with two digits after the point, computed on
  integers: what the formatted total is meant to be.
\<close>

definition decimal_2dp :: "int \<Rightarrow> string" where
  "decimal_2dp n =
     (if n < 0 then ''-'' else []) @ str_nat (\<bar>n\<bar> div 100) @ ''.'' @ two_digits (\<bar>n\<bar> mod 100)"

text \<open>
  Responses on which no step of the extractor raises: every part that is present has the
  type the code uses it at, and the magnitudes stay within the range of a float.
\<close>

fun is_dict :: "pyval \<Rightarrow> bool" where
  "is_dict (PDict d) = True"
| "is_dict x = False"

definition magnitude_limit :: int where
  "magnitude_limit = 10 ^ 300"

definition wf_function :: "pyval \<Rightarrow> bool" where
  "wf_function func = (is_dict func \<and> \<bar>function_value func\<bar> < magnitude_limit)"

text \<open>A table whose values are all below the limit.\<close>

definition bounded_table :: "effect_map \<Rightarrow> bool" where
  "bounded_table m = (\<forall>k ft v. m k = Some (ft, v) \<longrightarrow> \<bar>v\<bar> < magnitude_limit)"

definition wf_effect :: "pyval \<Rightarrow> bool" where
  "wf_effect effect =
     (case effect of
        PDict d \<Rightarrow>
          (case map_of d ''function_details'' of
             None \<Rightarrow> True
           | Some (PList funcs) \<Rightarrow>
               list_all wf_function funcs \<and> (funcs = [] \<or> hashable (dict_get d ''id''))
           | Some x \<Rightarrow> False)
      | x \<Rightarrow> False)"

definition wf_data :: "pyval \<Rightarrow> bool" where
  "wf_data data =
     (case data of
        PDict d \<Rightarrow>
          (case map_of d ''state_effects'' of
             None \<Rightarrow> True
           | Some (PList effects) \<Rightarrow> list_all wf_effect effects
           | Some x \<Rightarrow> False)
          \<and>
          (case map_of d ''character_details'' of
             None \<Rightarrow> True
           | Some (PList (PDict c # cs)) \<Rightarrow> True
           | Some x \<Rightarrow> False)
      | x \<Rightarrow> False)"

definition wf_response :: "pyval \<Rightarrow> bool" where
  "wf_response response =
     (\<not> truthy response \<or>
      (case response of
         PDict d \<Rightarrow> (case map_of d ''data'' of None \<Rightarrow> True | Some data \<Rightarrow> wf_data data)
       | x \<Rightarrow> False))"

section \<open>The extractor on absent and on incomplete responses\<close>

text \<open>
  Claim C2. For an absent response the extractor is said to return the three stats as the
  strings \<open>0.00\<close>. The early return hands out \<^verbatim>\<open>results\<close> as it was initialised: the
  three values are the integer \<open>0\<close>, not strings, and step 4 is never reached.
\<close>

theorem extract_absent_response:
  "extract_stats_per_gear PNone =
     Inr (PDict [(''Attack'', PInt 0), (''ElementalDamage'', PInt 0), (''MaxAmmo'', PInt 0)])"
  by (simp add: extract_stats_per_gear_def results_dict_def zero_results_def)

text \<open>
  Claim C7. A response without state effects is said to give \<open>0.00\<close> for all three
  totals. When its list of character details is empty as well, the default \<^verbatim>\<open>[{}]\<close>
  does not apply (the key is present) and \<^verbatim>\<open>[0]\<close> raises \<^verbatim>\<open>IndexError\<close>.
\<close>

theorem extract_empty_character_details:
  "extract_stats_per_gear
     (PDict [(''code'', PInt 0),
             (''data'', PDict [(''state_effects'', PList []), (''character_details'', PList [])])])
   = Inl IndexError"
  by (simp add: extract_stats_per_gear_def gear_totals_def build_effect_map_def
      first_character_def)

section \<open>The player registry loader\<close>

text \<open>
  Claim C9. A malformed row is said to be skipped by both loaders. The unit loader
  catches every exception of a row; the player loader catches none: on a row shorter than
  the header, whose \<open>UID\<close> field is \<^verbatim>\<open>None\<close>, \<^verbatim>\<open>strip\<close> raises
  \<^verbatim>\<open>AttributeError\<close> and no player is loaded.
\<close>

theorem load_players_short_row:
  "load_players_csv [PDict [(''Player'', PStr ''Alice''), (''UID'', PNone)]] = Inl AttributeError"
  by (simp add: load_players_csv_def players_row_def)

text \<open>The unit loader does skip: a row on which any step raises leaves the mapping as it was.\<close>

lemma units_row_skips:
  "py_getitem row ''units/Name code'' = Inl err \<Longrightarrow> units_row mapping row = mapping"
  "py_getitem row ''units/Name code'' = Inr c \<Longrightarrow> py_int c = Inl err \<Longrightarrow>
     units_row mapping row = mapping"
  "py_getitem row ''units/Name'' = Inl err \<Longrightarrow> units_row mapping row = mapping"
  "py_getitem row ''units/Name'' = Inr n \<Longrightarrow> py_strip n = Inl err \<Longrightarrow>
     units_row mapping row = mapping"
  by (simp_all add: units_row_def split: sum.splits)

lemma load_units_fixture:
  "load_units_csv
     [PDict [(''units/Name code'', PStr ''7''), (''units/Name'', PStr '' Alpha '')],
      PDict [(''units/Name code'', PStr ''x''), (''units/Name'', PStr ''Bad'')],
      PDict [(''units/Name code'', PStr ''8''), (''units/Name'', PNone)],
      PDict [(''units/Name code'', PStr ''3''), (''units/Name'', PStr ''Beta'')]]
   = [(7, ''Alpha''), (3, ''Beta'')]"
  by code_simp

section \<open>The driver\<close>



text \<open>
  Claim C10, as stated: whenever the request succeeds and the response has no \<open>code\<close>
  or one that is not zero, the pair is recorded as failed. A response that is not an object
  has no \<open>code\<close>; when it is not empty either, \<^verbatim>\<open>resp.get\<close> raises
  \<^verbatim>\<open>AttributeError\<close>: no row is appended and the run ends there.
\<close>

theorem non_object_body_aborts:
  "run_units extract_stats_per_gear
     (\<lambda>step open_id name_code cookie. Json (PList [PInt 1])) ''ck''
     \<lparr>Player = ''P1'', intl_open_id = ''X1''\<rparr> 0 [] [(7, ''Alpha'')] =
   Inl AttributeError"
  by (simp add: call_character_details_def pair_row_def resp_ok_def)

text \<open>
  Claim C10, amended. When the request succeeds and the response is empty
  (\<^verbatim>\<open>null\<close>, \<^verbatim>\<open>false\<close>, a zero, an empty string, list or object), or is an object
  whose \<open>code\<close> is absent or not equal to zero, the row of the pair has \<^verbatim>\<open>None\<close> in
  its three stat cells whatever the extractor is: the extractor is not called.
\<close>

theorem bad_code_not_extracted:
  assumes "post open_id name_code cookie = Json body"
    and "\<not> truthy body \<or>
         (\<exists>d. body = PDict d \<and>
              (case map_of d ''code'' of None \<Rightarrow> True | Some c \<Rightarrow> \<not> py_eq_zero c))"
  shows "pair_row extract player_name unit_name
           (call_character_details post open_id name_code cookie) =
         Inr (out_row player_name unit_name PNone PNone PNone)"
  using assms
  by (auto simp add: call_character_details_def pair_row_def resp_ok_def split: option.splits)

theorem bad_code_not_extracted_witness:
  "pair_row (\<lambda>resp. Inl TypeError) ''P1'' ''Alpha''
     (call_character_details (\<lambda>open_id name_code cookie. Json (PDict [(''code'', PInt 1)]))
        ''X1'' 7 ''ck'') =
   Inr (out_row ''P1'' ''Alpha'' PNone PNone PNone)"
  using bad_code_not_extracted [of "\<lambda>open_id name_code cookie. Json (PDict [(''code'', PInt 1)])"
      "''X1''" 7 "''ck''" "PDict [(''code'', PInt 1)]" "\<lambda>resp. Inl TypeError" "''P1''" "''Alpha''"]
  by simp

section \<open>The table of effects\<close>

lemma py_get_dict: "py_get (PDict d) k PNone = Inr (dict_get d k)"
  by (simp add: dict_get_def)

lemma scan_functions_other:
  "scan_functions eid m funcs = Inr m' \<Longrightarrow> k \<noteq> dict_key eid \<Longrightarrow> m' k = m k"
  by (induction funcs arbitrary: m) (auto split: sum.splits if_splits)

lemma scan_functions_last:
  "scan_functions eid m (funcs @ [func]) = Inr m' \<Longrightarrow>
   py_get func ''function_type'' PNone = Inr ftype \<Longrightarrow>
   m' (dict_key eid) = Some (ftype, function_value func)"
  by (induction funcs arbitrary: m) (auto split: sum.splits if_splits)

lemma scan_effects_append:
  "scan_effects m (xs @ ys) =
     (case scan_effects m xs of Inl err \<Rightarrow> Inl err | Inr m' \<Rightarrow> scan_effects m' ys)"
  by (induction xs arbitrary: m) (auto split: sum.splits)

lemma scan_effects_other:
  "scan_effects m effects = Inr m' \<Longrightarrow>
   \<forall>e\<in>set effects. \<forall>i. py_get e ''id'' PNone = Inr i \<longrightarrow> dict_key i \<noteq> k \<Longrightarrow> m' k = m k"
proof (induction effects arbitrary: m)
  case Nil
  then show ?case by simp
next
  case (Cons e es)
  from Cons.prems(1) obtain eid details funcs m1 where
    e: "py_get e ''id'' PNone = Inr eid"
      "py_get e ''function_details'' (PList []) = Inr details"
      "py_iter details = Inr funcs"
      "scan_functions eid m funcs = Inr m1"
      "scan_effects m1 es = Inr m'"
    by (auto split: sum.splits)
  from Cons.prems(2) e(1) have "k \<noteq> dict_key eid" by auto
  with e(4) have "m1 k = m k" by (rule scan_functions_other)
  moreover from Cons.IH [OF e(5)] Cons.prems(2) have "m' k = m1 k" by simp
  ultimately show ?case by simp
qed

text \<open>
  Claim C3. In the table built from the state effects, later occurrences win: the entry
  of an effect id is the type and the value of the last function detail of the last effect
  with that id (here the effect has function details, and no effect after it has an id that
  is the same key). What is the same key is what the dictionary takes for one: equal
  strings, and numbers of equal value.
\<close>

theorem last_write_wins:
  assumes "py_get response ''data'' (PDict []) = Inr data"
    and "py_get data ''state_effects'' (PList []) = Inr (PList (before @ effect # after))"
    and "build_effect_map response = Inr m"
    and "py_get effect ''id'' PNone = Inr eid"
    and "py_get effect ''function_details'' (PList []) = Inr (PList (funcs @ [func]))"
    and "py_get func ''function_type'' PNone = Inr ftype"
    and "\<forall>e\<in>set after. \<forall>i. py_get e ''id'' PNone = Inr i \<longrightarrow> dict_key i \<noteq> dict_key eid"
  shows "m (dict_key eid) = Some (ftype, function_value func)"
proof -
  from assms(1-3) have "scan_effects Map.empty (before @ effect # after) = Inr m"
    by (simp add: build_effect_map_def)
  then obtain m1 where m1: "scan_effects Map.empty before = Inr m1"
    and rest: "scan_effects m1 (effect # after) = Inr m"
    by (auto simp add: scan_effects_append split: sum.splits)
  from rest assms(4,5) obtain m2 where
    m2: "scan_functions eid m1 (funcs @ [func]) = Inr m2"
    and after: "scan_effects m2 after = Inr m"
    by (auto split: sum.splits)
  from m2 assms(6) have "m2 (dict_key eid) = Some (ftype, function_value func)"
    by (rule scan_functions_last)
  moreover from after assms(7) have "m (dict_key eid) = m2 (dict_key eid)"
    by (rule scan_effects_other)
  ultimately show ?thesis by simp
qed

theorem last_write_wins_witness:
  "\<exists>m. build_effect_map
         (PDict [(''code'', PInt 0),
                 (''data'', PDict
                    [(''state_effects'', PList
                        [PDict [(''id'', PStr ''5''),
                                (''function_details'', PList
                                   [PDict [(''function_type'', PStr ''StatAtk''),
                                           (''function_value'', PStr ''100'')]])],
                         PDict [(''id'', PStr ''5''),
                                (''function_details'', PList
                                   [PDict [(''function_type'', PStr ''StatAmmoLoad''),
                                           (''function_value'', PStr ''900'')],
                                    PDict [(''function_type'', PStr ''StatAtk''),
                                           (''function_value'', PStr ''700'')]])],
                         PDict [(''id'', PStr ''6''),
                                (''function_details'', PList
                                   [PDict [(''function_type'', PStr ''IncElementDmg''),
                                           (''function_value'', PStr ''50'')]])]]),
                     (''character_details'', PList
                        [PDict [(''arm_equip_option1_id'', PStr ''5'')]])])]) = Inr m
       \<and> m (PStr ''5'') = Some (PStr ''StatAtk'', 700)"
proof -
  let ?f1 = "PDict [(''function_type'', PStr ''StatAmmoLoad''), (''function_value'', PStr ''900'')]"
  let ?f2 = "PDict [(''function_type'', PStr ''StatAtk''), (''function_value'', PStr ''700'')]"
  let ?e1 = "PDict [(''id'', PStr ''5''),
                    (''function_details'', PList
                       [PDict [(''function_type'', PStr ''StatAtk''),
                               (''function_value'', PStr ''100'')]])]"
  let ?e2 = "PDict [(''id'', PStr ''5''), (''function_details'', PList [?f1, ?f2])]"
  let ?e3 = "PDict [(''id'', PStr ''6''),
                    (''function_details'', PList
                       [PDict [(''function_type'', PStr ''IncElementDmg''),
                               (''function_value'', PStr ''50'')]])]"
  let ?data = "PDict [(''state_effects'', PList [?e1, ?e2, ?e3]),
                      (''character_details'', PList [PDict [(''arm_equip_option1_id'', PStr ''5'')]])]"
  let ?resp = "PDict [(''code'', PInt 0), (''data'', ?data)]"
  have "\<exists>m. build_effect_map ?resp = Inr m"
    by (simp add: build_effect_map_def)
  then obtain m where m: "build_effect_map ?resp = Inr m" ..
  have v: "function_value ?f2 = 700"
    by code_simp
  have "m (PStr ''5'') = Some (PStr ''StatAtk'', function_value ?f2)"
    using last_write_wins [of ?resp ?data "[?e1]" ?e2 "[?e3]" m "PStr ''5''" "[?f1]" ?f2
        "PStr ''StatAtk''"] m
    by simp
  with m v show ?thesis by simp
qed

text \<open>The same fixture through the whole extractor: the last function detail alone counts.\<close>

lemma last_write_fixture:
  "extract_stats_per_gear
         (PDict [(''code'', PInt 0),
                 (''data'', PDict
                    [(''state_effects'', PList
                        [PDict [(''id'', PStr ''5''),
                                (''function_details'', PList
                                   [PDict [(''function_type'', PStr ''StatAtk''),
                                           (''function_value'', PStr ''100'')]])],
                         PDict [(''id'', PStr ''5''),
                                (''function_details'', PList
                                   [PDict [(''function_type'', PStr ''StatAmmoLoad''),
                                           (''function_value'', PStr ''900'')],
                                    PDict [(''function_type'', PStr ''StatAtk''),
                                           (''function_value'', PStr ''700'')]])],
                         PDict [(''id'', PStr ''6''),
                                (''function_details'', PList
                                   [PDict [(''function_type'', PStr ''IncElementDmg''),
                                           (''function_value'', PStr ''50'')]])]]),
                     (''character_details'', PList
                        [PDict [(''arm_equip_option1_id'', PStr ''5'')]])])])
   = Inr (PDict [(''Attack'', PStr ''7.00''), (''ElementalDamage'', PStr ''0.00''),
                 (''MaxAmmo'', PStr ''0.00'')])"
  by code_simp

text \<open>
  Ids that are numbers of equal value are one key: the entry of the id \<open>1\<close> is
  overwritten by the effect with the id \<^verbatim>\<open>true\<close>.
\<close>

lemma numeric_ids_share_key:
  "\<exists>m. build_effect_map
         (PDict [(''data'', PDict
                    [(''state_effects'', PList
                        [PDict [(''id'', PInt 1),
                                (''function_details'', PList
                                   [PDict [(''function_type'', PStr ''StatAtk''),
                                           (''function_value'', PInt 5)]])],
                         PDict [(''id'', PBool True),
                                (''function_details'', PList
                                   [PDict [(''function_type'', PStr ''X''),
                                           (''function_value'', PInt 7)]])]])])]) = Inr m
       \<and> m (PInt 1) = Some (PStr ''X'', 7)"
  by (simp add: build_effect_map_def function_value_def)

section \<open>The totals of the slots\<close>

lemma sum_slots_dict:
  "sum_slots m (PDict ch) r keys = Inr (foldl (\<lambda>r k. add_slot m (dict_get ch k) r) r keys)"
  by (induction keys arbitrary: r) (simp_all add: dict_get_def)

lemma sum_slots_is_dict:
  "sum_slots m character r (key # keys) = Inr r' \<Longrightarrow> \<exists>ch. character = PDict ch"
  by (cases character) simp_all

lemma add_slot_Attack:
  "Attack (add_slot m v r) = Attack r + Attack (slot_gain m v)"
  by (simp add: add_slot_def slot_gain_def zero_results_def split: option.splits)

lemma add_slot_ElementalDamage:
  "ElementalDamage (add_slot m v r) = ElementalDamage r + ElementalDamage (slot_gain m v)"
  by (simp add: add_slot_def slot_gain_def zero_results_def split: option.splits)

lemma add_slot_MaxAmmo:
  "MaxAmmo (add_slot m v r) = MaxAmmo r + MaxAmmo (slot_gain m v)"
  by (simp add: add_slot_def slot_gain_def zero_results_def split: option.splits)

lemma foldl_Attack:
  "Attack (foldl (\<lambda>r k. add_slot m (f k) r) r keys) =
     Attack r + (\<Sum>k\<leftarrow>keys. Attack (slot_gain m (f k)))"
  by (induction keys arbitrary: r) (simp_all add: add_slot_Attack)

lemma foldl_ElementalDamage:
  "ElementalDamage (foldl (\<lambda>r k. add_slot m (f k) r) r keys) =
     ElementalDamage r + (\<Sum>k\<leftarrow>keys. ElementalDamage (slot_gain m (f k)))"
  by (induction keys arbitrary: r) (simp_all add: add_slot_ElementalDamage)

lemma foldl_MaxAmmo:
  "MaxAmmo (foldl (\<lambda>r k. add_slot m (f k) r) r keys) =
     MaxAmmo r + (\<Sum>k\<leftarrow>keys. MaxAmmo (slot_gain m (f k)))"
  by (induction keys arbitrary: r) (simp_all add: add_slot_MaxAmmo)

lemma foldl_stat_of:
  "stat_of ftype (foldl (\<lambda>r k. add_slot m (f k) r) r keys) =
     stat_of ftype r + (\<Sum>k\<leftarrow>keys. stat_of ftype (slot_gain m (f k)))"
  by (simp add: stat_of_def foldl_Attack foldl_ElementalDamage foldl_MaxAmmo)

lemma sum_list_split:
  "(\<Sum>k\<leftarrow>keys. (g k :: int)) =
     (\<Sum>k\<leftarrow>filter P keys. g k) + (\<Sum>k\<leftarrow>filter (\<lambda>k. \<not> P k) keys. g k)"
  by (induction keys) simp_all

lemma sum_list_const:
  "\<forall>k\<in>set keys. g k = (c :: int) \<Longrightarrow> (\<Sum>k\<leftarrow>keys. g k) = c * int (length keys)"
  by (induction keys) (simp_all add: algebra_simps)

lemma slot_gain_matched:
  assumes "m (PStr (py_str v)) = Some (PStr ftype, val)"
    and "ftype \<in> set [''StatAtk'', ''IncElementDmg'', ''StatAmmoLoad'']"
  shows "stat_of ftype (slot_gain m v) = val"
  using assms by (auto simp add: slot_gain_def add_slot_def stat_of_def zero_results_def)

lemma slot_gain_unmatched:
  "m (PStr (py_str v)) = None \<Longrightarrow> slot_gain m v = zero_results"
  by (simp add: slot_gain_def add_slot_def)

text \<open>
  Claim C4. Slots accumulate independently, without deduplication: when an effect id is
  in the table with one of the three tracked types and the value \<open>val\<close>, the total
  of that type is \<open>val\<close> times the number of slots among the twelve that reference
  the id, plus what the other slots add.
\<close>

theorem slots_not_deduplicated:
  assumes "build_effect_map response = Inr m"
    and "first_character response = Inr (PDict ch)"
    and "m (PStr eid) = Some (PStr ftype, val)"
    and "ftype \<in> set [''StatAtk'', ''IncElementDmg'', ''StatAmmoLoad'']"
  shows "\<exists>r. gear_totals response = Inr r \<and>
           stat_of ftype r =
             val * int (length (filter (\<lambda>k. py_str (dict_get ch k) = eid) gear_keys))
             + stat_of ftype
                 (foldl (\<lambda>r k. add_slot m (dict_get ch k) r) zero_results
                    (filter (\<lambda>k. py_str (dict_get ch k) \<noteq> eid) gear_keys))"
proof -
  let ?f = "dict_get ch"
  let ?P = "\<lambda>k. py_str (?f k) = eid"
  let ?g = "\<lambda>k. stat_of ftype (slot_gain m (?f k))"
  let ?r = "foldl (\<lambda>r k. add_slot m (?f k) r) zero_results gear_keys"
  have tot: "gear_totals response = Inr ?r"
    using assms(1,2) by (simp add: gear_totals_def sum_slots_dict)
  have z: "stat_of ftype zero_results = 0"
    by (simp add: stat_of_def zero_results_def)
  have "\<forall>k\<in>set (filter ?P gear_keys). ?g k = val"
    using assms(3,4) by (auto intro: slot_gain_matched)
  then have same: "(\<Sum>k\<leftarrow>filter ?P gear_keys. ?g k) = val * int (length (filter ?P gear_keys))"
    by (rule sum_list_const)
  have "stat_of ftype ?r = (\<Sum>k\<leftarrow>gear_keys. ?g k)"
    by (simp add: foldl_stat_of z)
  also have "\<dots> = (\<Sum>k\<leftarrow>filter ?P gear_keys. ?g k)
                  + (\<Sum>k\<leftarrow>filter (\<lambda>k. \<not> ?P k) gear_keys. ?g k)"
    by (rule sum_list_split)
  also have "(\<Sum>k\<leftarrow>filter (\<lambda>k. \<not> ?P k) gear_keys. ?g k) =
      stat_of ftype (foldl (\<lambda>r k. add_slot m (?f k) r) zero_results
                       (filter (\<lambda>k. \<not> ?P k) gear_keys))"
    by (simp add: foldl_stat_of z)
  finally show ?thesis using tot same by simp
qed

theorem slots_not_deduplicated_witness:
  "\<exists>r. gear_totals
         (PDict [(''code'', PInt 0),
                 (''data'', PDict
                    [(''state_effects'', PList
                        [PDict [(''id'', PStr ''5''),
                                (''function_details'', PList
                                   [PDict [(''function_type'', PStr ''StatAtk''),
                                           (''function_value'', PStr ''300'')]])]]),
                     (''character_details'', PList
                        [PDict [(''arm_equip_option1_id'', PStr ''5''),
                                (''leg_equip_option2_id'', PStr ''5'')]])])]) = Inr r
       \<and> stat_of ''StatAtk'' r = 600"
proof -
  let ?f = "PDict [(''function_type'', PStr ''StatAtk''), (''function_value'', PStr ''300'')]"
  let ?ch = "[(''arm_equip_option1_id'', PStr ''5''), (''leg_equip_option2_id'', PStr ''5'')]"
  let ?data = "PDict [(''state_effects'', PList
                        [PDict [(''id'', PStr ''5''), (''function_details'', PList [?f])]]),
                      (''character_details'', PList [PDict ?ch])]"
  let ?resp = "PDict [(''code'', PInt 0), (''data'', ?data)]"
  let ?m = "[PStr ''5'' \<mapsto> (PStr ''StatAtk'', 300)]"
  have v: "function_value ?f = 300"
    by code_simp
  have m: "build_effect_map ?resp = Inr ?m"
    by (simp add: build_effect_map_def v)
  have c: "first_character ?resp = Inr (PDict ?ch)"
    by (simp add: first_character_def)
  have n: "length (filter (\<lambda>k. py_str (dict_get ?ch k) = ''5'') gear_keys) = 2"
    by (simp add: gear_keys_def dict_get_def)
  have o: "stat_of ''StatAtk''
             (foldl (\<lambda>r k. add_slot ?m (dict_get ?ch k) r) zero_results
                (filter (\<lambda>k. py_str (dict_get ?ch k) \<noteq> ''5'') gear_keys)) = 0"
    by (simp add: gear_keys_def dict_get_def add_slot_def stat_of_def zero_results_def)
  from slots_not_deduplicated [OF m c, of "''5''" "''StatAtk''" 300]
  show ?thesis
    unfolding n o by simp
qed

text \<open>A value of 300 referenced by two slots comes out as \<open>6.00\<close>.\<close>

lemma no_dedup_fixture:
  "extract_stats_per_gear
         (PDict [(''code'', PInt 0),
                 (''data'', PDict
                    [(''state_effects'', PList
                        [PDict [(''id'', PStr ''5''),
                                (''function_details'', PList
                                   [PDict [(''function_type'', PStr ''StatAtk''),
                                           (''function_value'', PStr ''300'')]])]]),
                     (''character_details'', PList
                        [PDict [(''arm_equip_option1_id'', PStr ''5''),
                                (''leg_equip_option2_id'', PStr ''5'')]])])])
   = Inr (PDict [(''Attack'', PStr ''6.00''), (''ElementalDamage'', PStr ''0.00''),
                 (''MaxAmmo'', PStr ''0.00'')])"
  by code_simp

text \<open>
  Without state effects the three totals are \<open>0.00\<close> whenever there is a first
  character record.
\<close>

lemma add_slot_empty: "add_slot Map.empty v r = r"
  by (simp add: add_slot_def)

lemma foldl_add_slot_empty: "foldl (\<lambda>r k. add_slot Map.empty (f k) r) r keys = r"
  by (induction keys) (simp_all add: add_slot_empty)

lemma format_zero_results:
  "format_results zero_results =
     Inr (PDict [(''Attack'', PStr ''0.00''), (''ElementalDamage'', PStr ''0.00''),
                 (''MaxAmmo'', PStr ''0.00'')])"
  by code_simp

lemma no_effects_all_zero:
  assumes "truthy response"
    and "py_get response ''data'' (PDict []) = Inr data"
    and "py_get data ''state_effects'' (PList []) = Inr (PList [])"
    and "first_character response = Inr (PDict ch)"
  shows "extract_stats_per_gear response =
           Inr (PDict [(''Attack'', PStr ''0.00''), (''ElementalDamage'', PStr ''0.00''),
                       (''MaxAmmo'', PStr ''0.00'')])"
proof -
  from assms(2,3) have "build_effect_map response = Inr Map.empty"
    by (simp add: build_effect_map_def)
  with assms(4) have "gear_totals response = Inr zero_results"
    by (simp add: gear_totals_def sum_slots_dict foldl_add_slot_empty)
  with assms(1) show ?thesis
    by (simp add: extract_stats_per_gear_def format_zero_results)
qed

lemma sum_list_nonneg_int:
  "\<forall>k\<in>set keys. 0 \<le> (g k :: int) \<Longrightarrow> 0 \<le> (\<Sum>k\<leftarrow>keys. g k)"
  by (induction keys) simp_all

lemma slot_gain_nonneg:
  assumes "\<forall>key ft v. m key = Some (ft, v) \<longrightarrow> 0 \<le> v"
  shows "0 \<le> Attack (slot_gain m x) \<and> 0 \<le> ElementalDamage (slot_gain m x)
         \<and> 0 \<le> MaxAmmo (slot_gain m x)"
proof (cases "m (PStr (py_str x))")
  case None
  then show ?thesis by (simp add: slot_gain_unmatched zero_results_def)
next
  case (Some p)
  obtain ft v where p: "p = (ft, v)" by (cases p)
  with Some assms have "0 \<le> v" by blast
  with Some p show ?thesis
    by (simp add: slot_gain_def add_slot_def zero_results_def)
qed

text \<open>
  Claim C5, as stated: the three totals are never negative, and a slot whose id is absent
  adds nothing. A negative magnitude is parsed and added like any other: one slot
  referencing an effect of value \<open>-100\<close> gives the Attack total \<open>-100\<close>.
\<close>

theorem negative_total:
  "gear_totals
     (PDict [(''code'', PInt 0),
             (''data'', PDict
                [(''state_effects'', PList
                    [PDict [(''id'', PStr ''5''),
                            (''function_details'', PList
                               [PDict [(''function_type'', PStr ''StatAtk''),
                                       (''function_value'', PStr ''-100'')]])]]),
                 (''character_details'', PList
                    [PDict [(''arm_equip_option1_id'', PStr ''5'')]])])])
   = Inr \<lparr>Attack = - 100, ElementalDamage = 0, MaxAmmo = 0\<rparr>"
  by code_simp

text \<open>
  An absent slot is looked up as the text \<open>None\<close>, and adds the value of an effect
  with that id: here each of the twelve slots adds 100.
\<close>

lemma absent_slots_match_none_id:
  "extract_stats_per_gear
     (PDict [(''code'', PInt 0),
             (''data'', PDict
                [(''state_effects'', PList
                    [PDict [(''id'', PStr ''None''),
                            (''function_details'', PList
                               [PDict [(''function_type'', PStr ''StatAtk''),
                                       (''function_value'', PInt 100)]])]])])])
   = Inr (PDict [(''Attack'', PStr ''12.00''), (''ElementalDamage'', PStr ''0.00''),
                 (''MaxAmmo'', PStr ''0.00'')])"
  by code_simp

text \<open>
  Claim C5, amended. Each total is an integer, of either sign: the sum over the twelve
  slots of what each slot adds. A slot field that is absent is looked up as the text
  \<open>None\<close>; a slot whose value, as text, is not a key of the table adds nothing; the
  totals are not negative when no value in the table is.
\<close>

theorem totals_are_slot_sums:
  assumes "gear_totals response = Inr r"
  shows "\<exists>m ch. build_effect_map response = Inr m \<and> first_character response = Inr (PDict ch)
           \<and> length gear_keys = 12
           \<and> Attack r = (\<Sum>k\<leftarrow>gear_keys. Attack (slot_gain m (dict_get ch k)))
           \<and> ElementalDamage r = (\<Sum>k\<leftarrow>gear_keys. ElementalDamage (slot_gain m (dict_get ch k)))
           \<and> MaxAmmo r = (\<Sum>k\<leftarrow>gear_keys. MaxAmmo (slot_gain m (dict_get ch k)))
           \<and> (\<forall>k. map_of ch k = None \<longrightarrow> py_str (dict_get ch k) = ''None'')
           \<and> (\<forall>k. m (PStr (py_str (dict_get ch k))) = None \<longrightarrow>
                  slot_gain m (dict_get ch k) = zero_results)
           \<and> ((\<forall>key ft v. m key = Some (ft, v) \<longrightarrow> 0 \<le> v) \<longrightarrow>
                  0 \<le> Attack r \<and> 0 \<le> ElementalDamage r \<and> 0 \<le> MaxAmmo r)"
proof -
  from assms obtain m character where
    m: "build_effect_map response = Inr m"
    and c: "first_character response = Inr character"
    and s: "sum_slots m character zero_results gear_keys = Inr r"
    by (auto simp add: gear_totals_def split: sum.splits)
  from s obtain ch where ch: "character = PDict ch"
    unfolding gear_keys_def by (blast dest: sum_slots_is_dict)
  let ?f = "dict_get ch"
  from s ch have r: "r = foldl (\<lambda>r k. add_slot m (?f k) r) zero_results gear_keys"
    by (simp add: sum_slots_dict)
  have a: "Attack r = (\<Sum>k\<leftarrow>gear_keys. Attack (slot_gain m (?f k)))"
    unfolding r by (simp add: foldl_Attack zero_results_def)
  have e: "ElementalDamage r = (\<Sum>k\<leftarrow>gear_keys. ElementalDamage (slot_gain m (?f k)))"
    unfolding r by (simp add: foldl_ElementalDamage zero_results_def)
  have x: "MaxAmmo r = (\<Sum>k\<leftarrow>gear_keys. MaxAmmo (slot_gain m (?f k)))"
    unfolding r by (simp add: foldl_MaxAmmo zero_results_def)
  have n: "(\<forall>key ft v. m key = Some (ft, v) \<longrightarrow> 0 \<le> v) \<longrightarrow>
        0 \<le> Attack r \<and> 0 \<le> ElementalDamage r \<and> 0 \<le> MaxAmmo r"
    unfolding a e x by (auto intro!: sum_list_nonneg_int dest: slot_gain_nonneg)
  have l: "length gear_keys = 12" by (simp add: gear_keys_def)
  have p: "\<forall>k. map_of ch k = None \<longrightarrow> py_str (?f k) = ''None''"
    by (simp add: dict_get_def)
  have u: "\<forall>k. m (PStr (py_str (?f k))) = None \<longrightarrow> slot_gain m (?f k) = zero_results"
    by (simp add: slot_gain_unmatched)
  from m c ch show ?thesis
    using l a e x p u n by blast
qed

theorem totals_are_slot_sums_witness:
  "\<exists>m ch. build_effect_map
         (PDict [(''code'', PInt 0),
                 (''data'', PDict
                    [(''state_effects'', PList
                        [PDict [(''id'', PStr ''5''),
                                (''function_details'', PList
                                   [PDict [(''function_type'', PStr ''StatAtk''),
                                           (''function_value'', PStr ''500'')]])]]),
                     (''character_details'', PList
                        [PDict [(''head_equip_option3_id'', PStr ''5''),
                                (''leg_equip_option2_id'', PStr ''6'')]])])]) = Inr m
       \<and> (\<Sum>k\<leftarrow>gear_keys. Attack (slot_gain m (dict_get ch k))) = 500"
proof -
  let ?resp = "PDict [(''code'', PInt 0),
                 (''data'', PDict
                    [(''state_effects'', PList
                        [PDict [(''id'', PStr ''5''),
                                (''function_details'', PList
                                   [PDict [(''function_type'', PStr ''StatAtk''),
                                           (''function_value'', PStr ''500'')]])]]),
                     (''character_details'', PList
                        [PDict [(''head_equip_option3_id'', PStr ''5''),
                                (''leg_equip_option2_id'', PStr ''6'')]])])]"
  have t: "gear_totals ?resp = Inr \<lparr>Attack = 500, ElementalDamage = 0, MaxAmmo = 0\<rparr>"
    by code_simp
  from totals_are_slot_sums [OF t] show ?thesis
    by auto
qed

section \<open>Scaling and formatting\<close>

lemma rhe_bound:
  assumes "0 < b"
  shows "\<bar>round_half_even a b * b - a\<bar> * 2 \<le> b"
proof -
  define q where "q = a div b"
  define r where "r = a mod b"
  have a: "a = q * b + r" by (simp add: q_def r_def)
  have r: "0 \<le> r" "r < b" using assms by (simp_all add: r_def)
  have "round_half_even a b = q \<and> 2 * r \<le> b \<or> round_half_even a b = q + 1 \<and> b \<le> 2 * r"
    by (auto simp add: round_half_even_def Let_def q_def r_def)
  then show ?thesis
  proof
    assume h: "round_half_even a b = q \<and> 2 * r \<le> b"
    then have "round_half_even a b * b - a = - r" by (simp add: a)
    with h r show ?thesis by simp
  next
    assume h: "round_half_even a b = q + 1 \<and> b \<le> 2 * r"
    then have "round_half_even a b * b - a = b - r" by (simp add: a algebra_simps)
    with h r show ?thesis by simp
  qed
qed

lemma rhe_unique:
  assumes "0 < b" and "\<bar>a - n * b\<bar> * 2 < b"
  shows "round_half_even a b = n"
proof -
  let ?q = "round_half_even a b"
  have "\<bar>?q * b - a\<bar> * 2 \<le> b" using assms(1) by (rule rhe_bound)
  moreover have "\<bar>x - y\<bar> * 2 < 2 * d" if "\<bar>c - y\<bar> * 2 < d" "\<bar>x - c\<bar> * 2 \<le> d"
    for x y c d :: int
    using that by arith
  ultimately have "\<bar>?q * b - n * b\<bar> * 2 < 2 * b" using assms(2) by blast
  then have "\<bar>(?q - n) * b\<bar> < b" by (simp add: algebra_simps)
  then have "\<bar>?q - n\<bar> * b < 1 * b" using assms(1) by (simp add: abs_mult)
  then have "\<bar>?q - n\<bar> < 1" using assms(1) by (simp only: mult_less_cancel_right_pos)
  then show ?thesis by simp
qed

lemma rhe_nonneg: "0 < b \<Longrightarrow> 0 \<le> a \<Longrightarrow> 0 \<le> round_half_even a b"
  by (simp add: round_half_even_def Let_def pos_imp_zdiv_nonneg_iff)

lemma bitlen_100: "bitlen 100 = 7"
  by code_simp

lemma quot_log2_le: "quot_log2 n b \<le> bitlen n - bitlen b"
  by (simp add: quot_log2_def Let_def)

lemma quot_log2_small:
  assumes "0 < n" and "n < 100 * 2 ^ 46"
  shows "quot_log2 n 100 \<le> 45"
proof -
  from assms(2) have "n < 2 ^ nat 53" by simp
  then have "bitlen n \<le> 53" by (simp add: bitlen_le_iff_power)
  then have d: "bitlen n - bitlen 100 \<le> 46" by (simp add: bitlen_100)
  show ?thesis
  proof (cases "bitlen n - bitlen 100 = 46")
    case True
    with assms(2) show ?thesis by (simp add: quot_log2_def Let_def)
  next
    case False
    with d have "bitlen n - bitlen 100 \<le> 45" by simp
    with quot_log2_le [of n 100] show ?thesis by simp
  qed
qed

lemma int_truediv_small:
  assumes "a \<noteq> 0" and "\<bar>a\<bar> < 100 * 2 ^ 46"
  shows "\<exists>m e. int_truediv a 100 = Inr (sgn a * m, e) \<and> e < 0 \<and> 0 < m
           \<and> round_half_even (m * 100) (2 ^ nat (- e)) = \<bar>a\<bar>"
proof -
  define n where "n = \<bar>a\<bar>"
  define e where "e = quot_log2 n 100 - 52"
  define s where "s = nat (- e)"
  define m where "m = round_half_even (n * 2 ^ s) 100"
  have n: "0 < n" "n < 100 * 2 ^ 46" using assms by (simp_all add: n_def)
  then have e: "e \<le> - 7" using quot_log2_small [of n] by (simp add: e_def)
  then have s: "7 \<le> s" by (simp add: s_def)
  then obtain t where t: "s = 7 + t" using le_Suc_ex by blast
  have p: "(128 :: int) \<le> 2 ^ s"
  proof -
    have "(2 :: int) ^ s = 128 * 2 ^ t" by (simp add: t power_add)
    moreover have "(1 :: int) \<le> 2 ^ t" by simp
    ultimately show ?thesis by linarith
  qed
  have b: "\<bar>m * 100 - n * 2 ^ s\<bar> * 2 \<le> 100"
    unfolding m_def by (rule rhe_bound) simp
  have m0: "0 \<le> m"
    unfolding m_def using n by (intro rhe_nonneg) simp_all
  show ?thesis
  proof (cases "m = 2 ^ 53")
    case False
    have r: "round_half_even (m * 100) (2 ^ s) = n"
      by (rule rhe_unique) (use b p in simp_all)
    have "m \<noteq> 0"
    proof
      assume "m = 0"
      with r have "n = 0" by (simp add: round_half_even_def)
      with n show False by simp
    qed
    with m0 have "0 < m" by simp
    moreover have "int_truediv a 100 = Inr (sgn a * m, e)"
      using assms(1) e False 
      by (simp add: int_truediv_def Let_def n_def [symmetric] e_def [symmetric] s_def [symmetric]
          m_def [symmetric])
    ultimately show ?thesis using e r by (auto simp add: n_def s_def)
  next
    case True
    have s1: "(2 :: int) ^ s = 2 * 2 ^ (s - 1)"
      using s by (cases s) simp_all
    from p s1 have p1: "(64 :: int) \<le> 2 ^ (s - 1)" by simp
    from b True s1 have "\<bar>2 ^ 52 * 100 - n * 2 ^ (s - 1)\<bar> * 2 \<le> 50"
      by simp
    with p1 have r: "round_half_even (2 ^ 52 * 100) (2 ^ (s - 1)) = n"
      by (intro rhe_unique) simp_all
    have ne: "nat (- (e + 1)) = s - 1" by (simp add: s_def)
    have "int_truediv a 100 = Inr (sgn a * 2 ^ 52, e + 1)"
      using assms(1) e True
      by (simp add: int_truediv_def Let_def n_def [symmetric] e_def [symmetric] s_def [symmetric]
          m_def [symmetric])
    with e r ne show ?thesis
      by (intro exI [of _ "2 ^ 52"] exI [of _ "e + 1"]) (simp add: n_def)
  qed
qed

lemma format_2f_signed:
  assumes "e < 0" and "0 < m" and "a \<noteq> 0"
    and "round_half_even (m * 100) (2 ^ nat (- e)) = \<bar>a\<bar>"
  shows "format_2f (sgn a * m, e) = decimal_2dp a"
proof -
  have "\<bar>sgn a * m\<bar> = m" using assms(2,3) by (simp add: abs_mult)
  moreover have "sgn a * m < 0 \<longleftrightarrow> a < 0"
    using assms(2,3) by (auto simp add: mult_less_0_iff sgn_if)
  ultimately show ?thesis
    using assms(1,4) by (simp add: format_2f_def decimal_2dp_def Let_def)
qed

text \<open>
  Claim C8, as stated: every integer total \<open>n\<close> is printed as \<open>n / 100\<close> with two
  digits after the point. The quotient is a float: from \<open>100 * 2 ^ 46\<close> on, the
  doubles are more than a hundredth apart, and the total \<open>7036874417766401\<close> is
  printed with the hundredths \<open>02\<close> where the quotient has \<open>01\<close>.
\<close>

theorem scale_fmt_inexact:
  "scale_fmt 7036874417766401 = Inr ''70368744177664.02''
   \<and> decimal_2dp 7036874417766401 = ''70368744177664.01''"
  by code_simp

text \<open>Still larger totals have no float quotient at all.\<close>

lemma scale_fmt_overflow: "scale_fmt (10 ^ 400) = Inl OverflowError"
  by code_simp

text \<open>
  Claim C8, amended. For every integer total \<open>n\<close> with \<open>\<bar>n\<bar> < 100 * 2 ^ 46\<close>
  (that is \<open>7036874417766400\<close>), the string printed is the decimal numeral of
  \<open>n / 100\<close> with exactly two digits after the point: 100 gives \<open>1.00\<close>, 0 gives
  \<open>0.00\<close>.
\<close>

theorem scale_fmt_exact:
  assumes "\<bar>n\<bar> < 7036874417766400"
  shows "scale_fmt n = Inr (decimal_2dp n)"
proof (cases "n = 0")
  case True
  then show ?thesis
    by (simp add: scale_fmt_def int_truediv_def format_2f_def decimal_2dp_def)
next
  case False
  from assms have "\<bar>n\<bar> < 100 * 2 ^ 46" by simp
  with False obtain m e where
    "int_truediv n 100 = Inr (sgn n * m, e)" "e < 0" "0 < m"
    "round_half_even (m * 100) (2 ^ nat (- e)) = \<bar>n\<bar>"
    using int_truediv_small by blast
  with False show ?thesis
    by (simp add: scale_fmt_def format_2f_signed)
qed

theorem scale_fmt_exact_witness:
  "scale_fmt 100 = Inr ''1.00'' \<and> scale_fmt 0 = Inr ''0.00'' \<and> scale_fmt (- 5) = Inr ''-0.05''"
proof -
  have "decimal_2dp 100 = ''1.00''" "decimal_2dp 0 = ''0.00''" "decimal_2dp (- 5) = ''-0.05''"
    by code_simp+
  with scale_fmt_exact [of 100] scale_fmt_exact [of 0] scale_fmt_exact [of "- 5"]
  show ?thesis by simp
qed

lemma int_truediv_no_overflow:
  assumes "\<bar>a\<bar> < 2 ^ 1010"
  shows "\<exists>x. int_truediv a 100 = Inr x"
proof (cases "a = 0")
  case True
  then show ?thesis by (simp add: int_truediv_def)
next
  case False
  from assms have "\<bar>a\<bar> < 2 ^ nat 1010" by simp
  then have "bitlen \<bar>a\<bar> \<le> 1010" by (simp only: bitlen_le_iff_power) simp
  with quot_log2_le [of "\<bar>a\<bar>" 100] have "quot_log2 \<bar>a\<bar> 100 - 52 \<le> 951"
    by (simp add: bitlen_100)
  with False show ?thesis
    by (simp add: int_truediv_def Let_def)
qed

lemma scale_fmt_total: "\<bar>a\<bar> < 2 ^ 1010 \<Longrightarrow> \<exists>s. scale_fmt a = Inr s"
  using int_truediv_no_overflow [of a] by (auto simp add: scale_fmt_def)

section \<open>Responses on which the extractor returns\<close>

text \<open>
  Claim C1, as stated: the extractor raises on no response structure, however its parts
  are typed. Only missing keys and unparsable values are provided for; a part of another
  type than the code uses it at raises. With \<^verbatim>\<open>null\<close> for \<open>data\<close>, the second
  \<^verbatim>\<open>get\<close> is called on \<^verbatim>\<open>None\<close>.
\<close>

theorem extract_null_data:
  "extract_stats_per_gear (PDict [(''code'', PInt 0), (''data'', PNone)]) = Inl AttributeError"
  by (simp add: extract_stats_per_gear_def gear_totals_def build_effect_map_def)

text \<open>An effect entry that is not an object raises as well.\<close>

lemma extract_malformed_effect:
  "extract_stats_per_gear
     (PDict [(''code'', PInt 0), (''data'', PDict [(''state_effects'', PList [PInt 5])])])
   = Inl AttributeError"
  by (simp add: extract_stats_per_gear_def gear_totals_def build_effect_map_def)

text \<open>What is provided for: a value that is missing or that \<^verbatim>\<open>int\<close> rejects counts as zero.\<close>

lemma function_value_missing:
  "map_of d ''function_value'' = None \<Longrightarrow> function_value (PDict d) = 0"
  by (simp add: function_value_def)

lemma function_value_unparsable:
  "map_of d ''function_value'' = Some v \<Longrightarrow> py_int v = Inl err \<Longrightarrow> function_value (PDict d) = 0"
  by (simp add: function_value_def)

lemma scan_functions_wf:
  assumes "list_all wf_function funcs"
    and "funcs = [] \<or> hashable eid"
    and "bounded_table m"
  shows "\<exists>m'. scan_functions eid m funcs = Inr m'
           \<and> bounded_table m'"
  using assms
proof (induction funcs arbitrary: m)
  case Nil
  then show ?case by simp
next
  case (Cons func funcs)
  from Cons.prems(1) obtain d where d: "func = PDict d"
    by (cases func) (simp_all add: wf_function_def)
  from Cons.prems(1) have v: "\<bar>function_value func\<bar> < magnitude_limit"
    by (simp add: wf_function_def)
  from Cons.prems(2) have h: "hashable eid" by simp
  let ?m = "m(dict_key eid \<mapsto> (dict_get d ''function_type'', function_value func))"
  have b: "bounded_table ?m"
    using Cons.prems(3) v by (auto simp add: bounded_table_def)
  from Cons.prems(1) have f: "list_all wf_function funcs" by simp
  from h have "funcs = [] \<or> hashable eid" by simp
  from Cons.IH [OF f this b] obtain m' where
    "scan_functions eid ?m funcs = Inr m'" "bounded_table m'"
    by blast
  with d h show ?case by (simp add: dict_get_def)
qed

lemma wf_effect_scan:
  assumes "wf_effect effect"
    and "bounded_table m"
  shows "\<exists>eid details funcs m'.
           py_get effect ''id'' PNone = Inr eid
           \<and> py_get effect ''function_details'' (PList []) = Inr details
           \<and> py_iter details = Inr funcs
           \<and> scan_functions eid m funcs = Inr m'
           \<and> bounded_table m'"
proof -
  from assms(1) obtain d where d: "effect = PDict d"
    by (cases effect) (simp_all add: wf_effect_def)
  show ?thesis
  proof (cases "map_of d ''function_details''")
    case None
    with d assms(2) show ?thesis by simp
  next
    case (Some x)
    with assms(1) d obtain funcs where
      x: "x = PList funcs" and f: "list_all wf_function funcs"
      and h: "funcs = [] \<or> hashable (dict_get d ''id'')"
      by (cases x) (simp_all add: wf_effect_def)
    from scan_functions_wf [OF f h assms(2)] d Some x show ?thesis
      by (simp add: dict_get_def)
  qed
qed

lemma scan_effects_wf:
  assumes "list_all wf_effect effects"
    and "bounded_table m"
  shows "\<exists>m'. scan_effects m effects = Inr m'
           \<and> bounded_table m'"
  using assms
proof (induction effects arbitrary: m)
  case Nil
  then show ?case by simp
next
  case (Cons effect effects)
  from Cons.prems have "wf_effect effect" by simp
  from wf_effect_scan [OF this Cons.prems(2)] obtain eid details funcs m1 where
    e: "py_get effect ''id'' PNone = Inr eid"
      "py_get effect ''function_details'' (PList []) = Inr details"
      "py_iter details = Inr funcs"
      "scan_functions eid m funcs = Inr m1"
    and b: "bounded_table m1"
    by blast
  from Cons.prems(1) have "list_all wf_effect effects" by simp
  from Cons.IH [OF this b] e show ?case by simp
qed

lemma wf_data_effect_map:
  assumes "wf_data data"
  shows "\<exists>state_effects effects m.
           py_get data ''state_effects'' (PList []) = Inr state_effects
           \<and> py_iter state_effects = Inr effects
           \<and> scan_effects Map.empty effects = Inr m
           \<and> (bounded_table m)"
proof -
  from assms obtain d where d: "data = PDict d"
    by (cases data) (simp_all add: wf_data_def)
  show ?thesis
  proof (cases "map_of d ''state_effects''")
    case None
    with d show ?thesis by (simp add: bounded_table_def)
  next
    case (Some x)
    with assms d obtain effects where x: "x = PList effects" and w: "list_all wf_effect effects"
      by (cases x) (simp_all add: wf_data_def)
    have "bounded_table Map.empty" by (simp add: bounded_table_def)
    from scan_effects_wf [OF w this] d Some x show ?thesis by simp
  qed
qed

lemma wf_data_character:
  assumes "wf_data data"
  shows "\<exists>details c.
           py_get data ''character_details'' (PList [PDict []]) = Inr details
           \<and> py_getitem0 details = Inr (PDict c)"
proof -
  from assms obtain d where d: "data = PDict d"
    by (cases data) (simp_all add: wf_data_def)
  show ?thesis
  proof (cases "map_of d ''character_details''")
    case None
    with d show ?thesis by simp
  next
    case (Some x)
    with assms d have "\<exists>c cs. x = PList (PDict c # cs)"
      by (auto simp add: wf_data_def split: pyval.splits list.splits)
    with d Some show ?thesis by auto
  qed
qed

lemma wf_response_data:
  assumes "wf_response response" and "truthy response"
  shows "\<exists>data. py_get response ''data'' (PDict []) = Inr data \<and> wf_data data"
proof -
  from assms obtain d where d: "response = PDict d"
    by (cases response) (simp_all add: wf_response_def)
  show ?thesis
  proof (cases "map_of d ''data''")
    case None
    with d show ?thesis by (simp add: wf_data_def)
  next
    case (Some x)
    with assms d show ?thesis by (simp add: wf_response_def)
  qed
qed

lemma magnitude_limit_nonneg: "0 \<le> magnitude_limit"
  by (simp add: magnitude_limit_def)

lemma slot_gain_bounded:
  assumes "bounded_table m"
  shows "\<bar>Attack (slot_gain m x)\<bar> \<le> magnitude_limit \<and> \<bar>ElementalDamage (slot_gain m x)\<bar> \<le> magnitude_limit
         \<and> \<bar>MaxAmmo (slot_gain m x)\<bar> \<le> magnitude_limit"
proof (cases "m (PStr (py_str x))")
  case None
  then show ?thesis by (simp add: slot_gain_unmatched zero_results_def magnitude_limit_nonneg)
next
  case (Some p)
  obtain ft v where p: "p = (ft, v)" by (cases p)
  with Some assms have "\<bar>v\<bar> < magnitude_limit" by (auto simp add: bounded_table_def)
  with Some p show ?thesis
    by (simp add: slot_gain_def add_slot_def zero_results_def magnitude_limit_nonneg)
qed

lemma sum_list_abs_bound:
  "\<forall>k\<in>set keys. \<bar>g k :: int\<bar> \<le> c \<Longrightarrow> \<bar>\<Sum>k\<leftarrow>keys. g k\<bar> \<le> c * int (length keys)"
proof (induction keys)
  case Nil
  then show ?case by simp
next
  case (Cons k keys)
  then have "\<bar>g k\<bar> \<le> c" "\<bar>\<Sum>k\<leftarrow>keys. g k\<bar> \<le> c * int (length keys)" by simp_all
  then have "\<bar>g k + (\<Sum>k\<leftarrow>keys. g k)\<bar> \<le> c + c * int (length keys)" by arith
  then show ?case by (simp add: algebra_simps)
qed

lemma float_range: "magnitude_limit * 12 < 2 ^ 1010"
  by (simp add: magnitude_limit_def)

lemma below_float_range: "\<bar>x\<bar> \<le> magnitude_limit * 12 \<Longrightarrow> \<bar>x\<bar> < 2 ^ 1010"
  using float_range by (rule le_less_trans [rotated])

lemma format_results_total:
  assumes "\<bar>Attack r\<bar> < 2 ^ 1010" "\<bar>ElementalDamage r\<bar> < 2 ^ 1010" "\<bar>MaxAmmo r\<bar> < 2 ^ 1010"
  shows "\<exists>stats. format_results r = Inr stats"
  using scale_fmt_total [OF assms(1)] scale_fmt_total [OF assms(2)] scale_fmt_total [OF assms(3)]
  by (auto simp add: format_results_def)

text \<open>
  Claim C1, amended. The extractor returns, without raising, on every response that is
  absent or empty, or that is an object in which \<open>data\<close>, when present, is an object;
  \<open>state_effects\<close>, when present, is a list of objects; in each of them
  \<open>function_details\<close>, when present, is a list of objects whose values are below
  \<open>10 ^ 300\<close> in size, and the \<open>id\<close> of an effect that has function details is neither
  a list nor an object; and \<open>character_details\<close>, when present, is a list whose first
  element is an object. On such a response that is not empty the result is the formatted
  totals of the twelve slot look-ups in the table built from the state effects, where a
  slot whose value, as text, is not a key of the table leaves the totals as they are (an
  absent slot is looked up as the text \<open>None\<close>), and a function detail whose value is
  missing, or is rejected by \<^verbatim>\<open>int\<close>, counts with the value 0. Nothing is said here of
  an empty list of character details.
\<close>

theorem extract_returns_on_wf:
  assumes "wf_response response"
  shows "(\<exists>stats. extract_stats_per_gear response = Inr stats)
       \<and> (truthy response \<longrightarrow>
            (\<exists>m ch. build_effect_map response = Inr m
               \<and> first_character response = Inr (PDict ch)
               \<and> extract_stats_per_gear response =
                   format_results
                     (foldl (\<lambda>r k. add_slot m (dict_get ch k) r) zero_results gear_keys)
               \<and> (\<forall>k. map_of ch k = None \<longrightarrow> py_str (dict_get ch k) = ''None'')
               \<and> (\<forall>k r. m (PStr (py_str (dict_get ch k))) = None \<longrightarrow>
                      add_slot m (dict_get ch k) r = r)))
       \<and> (\<forall>d. (case map_of d ''function_value'' of
                   None \<Rightarrow> True
                 | Some v \<Rightarrow> (\<exists>err. py_int v = Inl err)) \<longrightarrow>
                function_value (PDict d) = 0)"
proof -
  have v: "\<forall>d. (case map_of d ''function_value'' of
                   None \<Rightarrow> True
                 | Some v \<Rightarrow> (\<exists>err. py_int v = Inl err)) \<longrightarrow>
                function_value (PDict d) = 0"
    by (auto simp add: function_value_def split: option.splits)
  show ?thesis
  proof (cases "truthy response")
    case False
    then have "\<exists>stats. extract_stats_per_gear response = Inr stats"
      by (simp add: extract_stats_per_gear_def)
    with False v show ?thesis by blast
  next
    case True
    from wf_response_data [OF assms True] obtain data where
      data: "py_get response ''data'' (PDict []) = Inr data" and wf: "wf_data data"
      by blast
    from wf_data_effect_map [OF wf] data obtain m where
      m: "build_effect_map response = Inr m"
      and b: "bounded_table m"
      by (auto simp add: build_effect_map_def)
    from wf_data_character [OF wf] data obtain ch where
      c: "first_character response = Inr (PDict ch)"
      by (auto simp add: first_character_def)
    let ?r = "foldl (\<lambda>r k. add_slot m (dict_get ch k) r) zero_results gear_keys"
    from m c have t: "gear_totals response = Inr ?r"
      by (simp add: gear_totals_def sum_slots_dict)
    have l: "int (length gear_keys) = 12" by (simp add: gear_keys_def)
    have "\<bar>Attack ?r\<bar> \<le> magnitude_limit * 12"
      using sum_list_abs_bound [of gear_keys "\<lambda>k. Attack (slot_gain m (dict_get ch k))"
          "magnitude_limit"]
        slot_gain_bounded [OF b]
      by (simp add: foldl_Attack zero_results_def l)
    moreover have "\<bar>ElementalDamage ?r\<bar> \<le> magnitude_limit * 12"
      using sum_list_abs_bound [of gear_keys
          "\<lambda>k. ElementalDamage (slot_gain m (dict_get ch k))" "magnitude_limit"]
        slot_gain_bounded [OF b]
      by (simp add: foldl_ElementalDamage zero_results_def l)
    moreover have "\<bar>MaxAmmo ?r\<bar> \<le> magnitude_limit * 12"
      using sum_list_abs_bound [of gear_keys "\<lambda>k. MaxAmmo (slot_gain m (dict_get ch k))"
          "magnitude_limit"]
        slot_gain_bounded [OF b]
      by (simp add: foldl_MaxAmmo zero_results_def l)
    ultimately have "\<bar>Attack ?r\<bar> < 2 ^ 1010" "\<bar>ElementalDamage ?r\<bar> < 2 ^ 1010"
      "\<bar>MaxAmmo ?r\<bar> < 2 ^ 1010"
      by (simp_all only: below_float_range)
    then have f: "\<exists>stats. format_results ?r = Inr stats"
      by (rule format_results_total)
    from True t have x: "extract_stats_per_gear response = format_results ?r"
      by (simp add: extract_stats_per_gear_def)
    with f have e: "\<exists>stats. extract_stats_per_gear response = Inr stats" by simp
    have p: "\<forall>k. map_of ch k = None \<longrightarrow> py_str (dict_get ch k) = ''None''"
      by (simp add: dict_get_def)
    have u: "\<forall>k r. m (PStr (py_str (dict_get ch k))) = None \<longrightarrow>
               add_slot m (dict_get ch k) r = r"
      by (simp add: add_slot_def)
    from m c x p u have "\<exists>m ch. build_effect_map response = Inr m
               \<and> first_character response = Inr (PDict ch)
               \<and> extract_stats_per_gear response =
                   format_results
                     (foldl (\<lambda>r k. add_slot m (dict_get ch k) r) zero_results gear_keys)
               \<and> (\<forall>k. map_of ch k = None \<longrightarrow> py_str (dict_get ch k) = ''None'')
               \<and> (\<forall>k r. m (PStr (py_str (dict_get ch k))) = None \<longrightarrow>
                      add_slot m (dict_get ch k) r = r)"
      by blast
    with e v show ?thesis by blast
  qed
qed

theorem extract_returns_on_wf_witness:
  "\<exists>stats. extract_stats_per_gear
      (PDict [(''code'', PInt 0),
              (''data'', PDict
                 [(''state_effects'', PList
                     [PDict [(''id'', PStr ''5''),
                             (''function_details'', PList
                                [PDict [(''function_type'', PStr ''StatAtk''),
                                        (''function_value'', PStr ''abc'')]])],
                      PDict [(''id'', PNone)],
                      PDict []])])]) = Inr stats"
proof -
  have "wf_response
      (PDict [(''code'', PInt 0),
              (''data'', PDict
                 [(''state_effects'', PList
                     [PDict [(''id'', PStr ''5''),
                             (''function_details'', PList
                                [PDict [(''function_type'', PStr ''StatAtk''),
                                        (''function_value'', PStr ''abc'')]])],
                      PDict [(''id'', PNone)],
                      PDict []])])])"
    by code_simp
  from extract_returns_on_wf [OF this] show ?thesis by blast
qed

text \<open>On that response the three totals are \<open>0.00\<close>.\<close>

lemma degraded_fixture:
  "extract_stats_per_gear
      (PDict [(''code'', PInt 0),
              (''data'', PDict
                 [(''state_effects'', PList
                     [PDict [(''id'', PStr ''5''),
                             (''function_details'', PList
                                [PDict [(''function_type'', PStr ''StatAtk''),
                                        (''function_value'', PStr ''abc'')]])],
                      PDict [(''id'', PNone)],
                      PDict []])])])
   = Inr (PDict [(''Attack'', PStr ''0.00''), (''ElementalDamage'', PStr ''0.00''),
                 (''MaxAmmo'', PStr ''0.00'')])"
  by code_simp

end
